theory Spec2Isabelle
  imports Complex_Main "HOL-Library.Log_Nat"
begin

section \<open>The session registry and the request router (index.ts)\<close>

subsection \<open>Transports and the registry\<close>

text \<open>
  The router keeps one module-level object,
  \<^verbatim>\<open>const transports: Record<string, StreamableHTTPServerTransport> = {}\<close>,
  whose own properties are the live sessions. Of a transport the router reads only
  \<^verbatim>\<open>sessionId\<close> (undefined until the protocol engine has initialised the session);
  \<open>tid\<close> is the identity of the JavaScript object.
\<close>

record transport =
  tid :: nat
  sessionId :: "string option"

type_synonym registry = "string \<rightharpoonup> transport"

text \<open>
  \<open>transports\<close> is created by the object literal \<^verbatim>\<open>{}\<close>, so a property read
  \<^verbatim>\<open>transports[k]\<close> that finds no own property continues on \<^verbatim>\<open>Object.prototype\<close>.
  Every member found there is a function, or (for \<^verbatim>\<open>__proto__\<close>) the prototype object
  itself: a truthy value that is not a transport.
\<close>

definition Object_prototype_keys :: "string list" where
  "Object_prototype_keys =
     [''constructor'', ''__defineGetter__'', ''__defineSetter__'', ''hasOwnProperty'',
      ''__lookupGetter__'', ''__lookupSetter__'', ''isPrototypeOf'',
      ''propertyIsEnumerable'', ''toString'', ''valueOf'', ''__proto__'',
      ''toLocaleString'']"

datatype slot = Live transport | Inherited string

definition property :: "registry \<Rightarrow> string \<Rightarrow> slot option" where
  \<comment> \<open>\<^verbatim>\<open>transports[k]\<close>; \<open>None\<close> is \<^verbatim>\<open>undefined\<close>.\<close>
  "property reg k =
     (case reg k of
        Some t \<Rightarrow> Some (Live t)
      | None \<Rightarrow> if k \<in> set Object_prototype_keys then Some (Inherited k) else None)"

definition resolve :: "registry \<Rightarrow> string option \<Rightarrow> slot option" where
  \<comment> \<open>\<^verbatim>\<open>sessionId ? transports[sessionId] : undefined\<close>: the empty string is falsy.\<close>
  "resolve reg hdr =
     (case hdr of
        None \<Rightarrow> None
      | Some sid \<Rightarrow> if sid = [] then None else property reg sid)"

text \<open>
  The two callbacks the router installs on every transport it constructs. They are the
  only code that writes the registry.
  \<^verbatim>\<open>
    onsessioninitialized: (sid) => { transports[sid] = transport!; }
    transport.onclose = () => {
      const sid = transport?.sessionId;
      if (sid) delete transports[sid];
    };
  \<close>
\<close>

definition onsessioninitialized :: "transport \<Rightarrow> string \<Rightarrow> registry \<Rightarrow> registry" where
  \<comment> \<open>\<open>sid\<close> is what the transport's \<^verbatim>\<open>sessionIdGenerator\<close>, \<^verbatim>\<open>randomUUID\<close>, returned\<close>
  "onsessioninitialized t sid reg = reg(sid \<mapsto> t)"

definition onclose :: "transport \<Rightarrow> registry \<Rightarrow> registry" where
  "onclose t reg =
     (case sessionId t of
        None \<Rightarrow> reg
      | Some sid \<Rightarrow> if sid = [] then reg else reg(sid := None))"

subsection \<open>The three handlers\<close>

datatype reply_body =
    JsonRpcError int string  \<comment> \<open>\<^verbatim>\<open>{jsonrpc: '2.0', error: {code, message}, id: null}\<close>\<close>
  | PlainText string

datatype outcome =
    Replied nat reply_body   \<comment> \<open>\<^verbatim>\<open>reply.code(n).send(body); return\<close>\<close>
  | Connected transport      \<comment> \<open>a new transport, \<^verbatim>\<open>server.connect\<close>, then hand-off\<close>
  | Forwarded transport      \<comment> \<open>hand-off to the transport found in the registry\<close>
  | TypeError string         \<comment> \<open>\<^verbatim>\<open>transport.handleRequest is not a function\<close>\<close>

definition hand_off :: "slot \<Rightarrow> outcome" where
  \<comment> \<open>\<^verbatim>\<open>reply.hijack(); await transport.handleRequest(...)\<close> on what the lookup found.\<close>
  "hand_off s = (case s of Live t \<Rightarrow> Forwarded t | Inherited k \<Rightarrow> TypeError k)"

text \<open>
  \<^verbatim>\<open>app.post('/mcp', ...)\<close>. \<open>isInitializeRequest\<close> is the SDK's predicate on the
  request body; \<open>fresh\<close> is the identity of the object \<^verbatim>\<open>new\<close> allocates.
\<close>

definition post_mcp ::
  "('b \<Rightarrow> bool) \<Rightarrow> nat \<Rightarrow> registry \<Rightarrow> string option \<Rightarrow> 'b \<Rightarrow> outcome" where
  "post_mcp isInitializeRequest fresh reg hdr body =
     (case resolve reg hdr of
        None \<Rightarrow>
          if \<not> isInitializeRequest body
          then Replied 400 (JsonRpcError (- 32000) ''Bad Request: No valid session ID provided'')
          else Connected \<lparr>tid = fresh, sessionId = None\<rparr>
      | Some s \<Rightarrow> hand_off s)"

definition get_mcp :: "registry \<Rightarrow> string option \<Rightarrow> outcome" where
  "get_mcp reg hdr =
     (case resolve reg hdr of
        None \<Rightarrow> Replied 400 (PlainText ''Invalid or missing session ID'')
      | Some s \<Rightarrow> hand_off s)"

definition delete_mcp :: "registry \<Rightarrow> string option \<Rightarrow> outcome" where
  "delete_mcp reg hdr =
     (case resolve reg hdr of
        None \<Rightarrow> Replied 400 (PlainText ''Invalid or missing session ID'')
      | Some s \<Rightarrow> hand_off s)"

subsection \<open>The registry after a request\<close>

text \<open>
  What \<^verbatim>\<open>handleRequest\<close> does inside the SDK is not part of this repository; all the
  registry can see of it is the sequence of callbacks it fires on the transport. The SDK
  sets \<^verbatim>\<open>transport.sessionId\<close> before it calls \<^verbatim>\<open>onsessioninitialized\<close>.
\<close>

datatype callback = SessionInitialized string | Closed

fun fire :: "callback list \<Rightarrow> transport \<Rightarrow> registry \<Rightarrow> registry" where
  "fire [] t reg = reg"
| "fire (SessionInitialized sid # cs) t reg =
     fire cs (t\<lparr>sessionId := Some sid\<rparr>)
       (onsessioninitialized (t\<lparr>sessionId := Some sid\<rparr>) sid reg)"
| "fire (Closed # cs) t reg = fire cs t (onclose t reg)"

definition after :: "(transport \<Rightarrow> callback list) \<Rightarrow> outcome \<Rightarrow> registry \<Rightarrow> registry" where
  \<comment> \<open>A handler that replied or threw never reached a transport: no callback can fire.\<close>
  "after sdk out reg =
     (case out of
        Replied n b \<Rightarrow> reg
      | Connected t \<Rightarrow> fire (sdk t) t reg
      | Forwarded t \<Rightarrow> fire (sdk t) t reg
      | TypeError k \<Rightarrow> reg)"

definition live :: "registry \<Rightarrow> string \<Rightarrow> bool" where
  "live reg sid = (reg sid \<noteq> None)"

section \<open>JavaScript values\<close>

text \<open>
  A JavaScript number is an IEEE 754 double: a finite value (an exact rational that a
  double can hold; \<open>Fin 0\<close> is \<^verbatim>\<open>+0\<close>), \<^verbatim>\<open>-0\<close>, an infinity or \<^verbatim>\<open>NaN\<close>. Every
  operation computes the exact result and rounds it with \<open>to_double\<close>. A field of a
  provider message is typed \<^verbatim>\<open>T | null | undefined\<close>, and the two absent values differ
  downstream, so they are kept apart.
\<close>

datatype number = Fin rat | NegZero | PosInfinity | NegInfinity | NaN

definition round_half_even :: "rat \<Rightarrow> int" where
  "round_half_even x =
     (let f = \<lfloor>x\<rfloor>; d = x - of_int f in
      if d < 1 / 2 then f else if 1 / 2 < d then f + 1 else if even f then f else f + 1)"

definition ilog2 :: "rat \<Rightarrow> int" where
  \<comment> \<open>\<open>\<lfloor>log\<^sub>2 a\<rfloor>\<close> for \<open>a > 0\<close>, from the bit lengths of numerator and denominator\<close>
  "ilog2 a =
     (let k = bitlen (fst (quotient_of a)) - bitlen (snd (quotient_of a)) in
      if 2 powi k \<le> a then k else k - 1)"

definition to_double :: "rat \<Rightarrow> number" where
  \<comment> \<open>round to nearest, ties to even: a 53-bit significand \<open>m\<close> at exponent \<open>e\<close>, with
      \<open>e \<ge> -1074\<close> (subnormals) and overflow to an infinity from \<open>2\<^sup>1\<^sup>0\<^sup>2\<^sup>4\<close> on\<close>
  "to_double x =
     (if x = 0 then Fin 0
      else
        let a = \<bar>x\<bar>;
            e = max (ilog2 a - 52) (- 1074);
            m = round_half_even (a / 2 powi e)
        in if 971 < e \<or> (e = 971 \<and> m = 2 ^ 53) then (if x < 0 then NegInfinity else PosInfinity)
           else if m = 0 then (if x < 0 then NegZero else Fin 0)
           else Fin ((if x < 0 then - 1 else 1) * of_int m * 2 powi e))"

datatype 'a maybe = Undefined | Null | Just 'a

datatype json =
    JUndefined
  | JNull
  | JNumber number
  | JString string
  | JArray "json list"
  | JObject "(string \<times> json) list"

definition nullish :: "'a \<Rightarrow> 'a maybe \<Rightarrow> 'a" where
  \<comment> \<open>\<^verbatim>\<open>x ?? d\<close>\<close>
  "nullish d x = (case x of Just v \<Rightarrow> v | _ \<Rightarrow> d)"

definition or_undefined :: "'a maybe \<Rightarrow> 'a option" where
  \<comment> \<open>\<^verbatim>\<open>x ?? undefined\<close>\<close>
  "or_undefined x = (case x of Just v \<Rightarrow> Some v | _ \<Rightarrow> None)"

definition chain :: "'a maybe \<Rightarrow> ('a \<Rightarrow> 'b maybe) \<Rightarrow> 'b maybe" where
  \<comment> \<open>\<^verbatim>\<open>x?.f\<close>\<close>
  "chain x f = (case x of Just v \<Rightarrow> f v | _ \<Rightarrow> Undefined)"

definition num_json :: "number maybe \<Rightarrow> json" where
  "num_json x = (case x of Undefined \<Rightarrow> JUndefined | Null \<Rightarrow> JNull | Just n \<Rightarrow> JNumber n)"

definition str_json :: "string maybe \<Rightarrow> json" where
  "str_json x = (case x of Undefined \<Rightarrow> JUndefined | Null \<Rightarrow> JNull | Just s \<Rightarrow> JString s)"

definition opt_num_json :: "number option \<Rightarrow> json" where
  "opt_num_json x = (case x of None \<Rightarrow> JUndefined | Some n \<Rightarrow> JNumber n)"

definition field :: "string \<Rightarrow> json \<Rightarrow> json" where
  \<comment> \<open>\<^verbatim>\<open>v[k]\<close> on a value that was built as an object literal; a missing key reads
      \<^verbatim>\<open>undefined\<close>.\<close>
  "field k v =
     (case v of
        JObject kvs \<Rightarrow> (case map_of kvs k of Some x \<Rightarrow> x | None \<Rightarrow> JUndefined)
      | _ \<Rightarrow> JUndefined)"

subsection \<open>Number(string)\<close>

text \<open>
  \<^verbatim>\<open>Number(s)\<close> on a string follows the StringNumericLiteral grammar of ECMAScript:
  white space is stripped; the empty string is 0; a literal is a signed decimal (with
  optional fraction and exponent), a signed \<^verbatim>\<open>Infinity\<close>, or an unsigned hexadecimal,
  octal or binary integer; anything else is \<^verbatim>\<open>NaN\<close>. The result is the double nearest
  to the mathematical value of the literal.
\<close>

definition is_digit :: "char \<Rightarrow> bool" where
  "is_digit c = (c \<in> set ''0123456789'')"

definition digit_val :: "char \<Rightarrow> nat" where
  "digit_val c = of_char c - 48"

definition dec :: "string \<Rightarrow> nat" where
  \<comment> \<open>the value of a string of decimal digits\<close>
  "dec ds = foldl (\<lambda>n c. 10 * n + digit_val c) 0 ds"

definition is_space :: "char \<Rightarrow> bool" where
  \<comment> \<open>StrWhiteSpaceChar, within the 8-bit characters of \<open>string\<close>\<close>
  "is_space c = ((of_char c :: nat) \<in> set [9, 10, 11, 12, 13, 32, 160])"

definition trim :: "string \<Rightarrow> string" where
  "trim s = rev (dropWhile is_space (rev (dropWhile is_space s)))"

definition hex_val :: "char \<Rightarrow> nat option" where
  "hex_val c =
     (if is_digit c then Some (digit_val c)
      else if c \<in> set ''abcdef'' then Some (of_char c - 87)
      else if c \<in> set ''ABCDEF'' then Some (of_char c - 55)
      else None)"

definition radix_val :: "nat \<Rightarrow> string \<Rightarrow> nat option" where
  \<comment> \<open>one or more digits of the radix, and nothing else\<close>
  "radix_val b ds =
     (if ds \<noteq> [] \<and> list_all (\<lambda>c. case hex_val c of Some d \<Rightarrow> d < b | None \<Rightarrow> False) ds
      then Some (foldl (\<lambda>n c. b * n + the (hex_val c)) 0 ds)
      else None)"

definition NonDecimalIntegerLiteral :: "string \<Rightarrow> nat option" where
  "NonDecimalIntegerLiteral t =
     (case t of
        z # c # ds \<Rightarrow>
          if z \<noteq> CHR ''0'' then None
          else if c \<in> set ''xX'' then radix_val 16 ds
          else if c \<in> set ''oO'' then radix_val 8 ds
          else if c \<in> set ''bB'' then radix_val 2 ds
          else None
      | _ \<Rightarrow> None)"

definition SignedInteger :: "string \<Rightarrow> int option" where
  "SignedInteger r =
     (let ds = (case r of c # r' \<Rightarrow> if c \<in> set ''+-'' then r' else r | [] \<Rightarrow> r)
      in if ds = [] \<or> \<not> list_all is_digit ds then None
         else Some (if r \<noteq> [] \<and> hd r = CHR ''-'' then - int (dec ds) else int (dec ds)))"

definition ExponentPart :: "string \<Rightarrow> int option" where
  \<comment> \<open>the optional exponent that ends a decimal literal; \<open>None\<close> when the rest is neither
      empty nor an exponent\<close>
  "ExponentPart r =
     (case r of
        [] \<Rightarrow> Some 0
      | c # r' \<Rightarrow> if c \<in> set ''eE'' then SignedInteger r' else None)"

definition StrUnsignedDecimalLiteral :: "string \<Rightarrow> number" where
  "StrUnsignedDecimalLiteral r =
     (if r = ''Infinity'' then PosInfinity
      else
        let ip = takeWhile is_digit r;
            r1 = dropWhile is_digit r;
            dot = (r1 \<noteq> [] \<and> hd r1 = CHR ''.'');
            fp = (if dot then takeWhile is_digit (tl r1) else []);
            r2 = (if dot then dropWhile is_digit (tl r1) else r1)
        in if ip = [] \<and> fp = [] then NaN
           else (case ExponentPart r2 of
                   None \<Rightarrow> NaN
                 | Some e \<Rightarrow>
                     to_double ((of_nat (dec ip) + of_nat (dec fp) / 10 ^ length fp) * 10 powi e)))"

definition negate :: "number \<Rightarrow> number" where
  "negate x =
     (case x of
        Fin a \<Rightarrow> if a = 0 then NegZero else Fin (- a)
      | NegZero \<Rightarrow> Fin 0
      | PosInfinity \<Rightarrow> NegInfinity
      | NegInfinity \<Rightarrow> PosInfinity
      | NaN \<Rightarrow> NaN)"

definition Number_of_string :: "string \<Rightarrow> number" where
  "Number_of_string s =
     (let t = trim s in
      if t = [] then Fin 0
      else (case NonDecimalIntegerLiteral t of
              Some n \<Rightarrow> to_double (of_nat n)
            | None \<Rightarrow>
                if hd t = CHR ''+'' then StrUnsignedDecimalLiteral (tl t)
                else if hd t = CHR ''-'' then negate (StrUnsignedDecimalLiteral (tl t))
                else StrUnsignedDecimalLiteral t))"

fun num_add :: "number \<Rightarrow> number \<Rightarrow> number" where
  "num_add NaN y = NaN"
| "num_add x NaN = NaN"
| "num_add PosInfinity NegInfinity = NaN"
| "num_add NegInfinity PosInfinity = NaN"
| "num_add PosInfinity y = PosInfinity"
| "num_add NegInfinity y = NegInfinity"
| "num_add x PosInfinity = PosInfinity"
| "num_add x NegInfinity = NegInfinity"
| "num_add NegZero y = y"
| "num_add x NegZero = x"
| "num_add (Fin a) (Fin b) = to_double (a + b)"

definition div_1e9 :: "number \<Rightarrow> number" where
  \<comment> \<open>\<^verbatim>\<open>x / 1e9\<close>\<close>
  "div_1e9 x = (case x of Fin a \<Rightarrow> to_double (a / 1000000000) | y \<Rightarrow> y)"

section \<open>The tool handlers (index.ts) and the provider client (googleMaps.ts)\<close>

subsection \<open>Provider messages\<close>

text \<open>
  The protobuf interfaces of the provider's client libraries, with the fields the handlers
  read. A duration arrives as a \<^verbatim>\<open>{seconds, nanos}\<close> message, whose \<^verbatim>\<open>seconds\<close> is a
  number or a decimal string, or as a string such as \<^verbatim>\<open>"3.5s"\<close>. The interface also
  allows a \<^verbatim>\<open>Long\<close> object for \<^verbatim>\<open>seconds\<close>; \<^verbatim>\<open>durationToSeconds\<close> casts whatever
  is not a string to \<^verbatim>\<open>number\<close>, and the model follows the cast.
\<close>

record LatLng =
  latitude :: "number maybe"
  longitude :: "number maybe"

record Location =
  latLng :: "LatLng maybe"

datatype seconds_value = SecondsNumber number | SecondsString string

record Duration =
  seconds :: "seconds_value maybe"
  nanos :: "number maybe"

datatype duration_value = DurationString string | DurationMessage Duration

record RouteLeg =
  startLocation :: "Location maybe"
  endLocation :: "Location maybe"
  leg_distanceMeters :: "number maybe"
  leg_duration :: "duration_value maybe"

record Route =
  route_distanceMeters :: "number maybe"
  route_duration :: "duration_value maybe"
  legs :: "RouteLeg list maybe"

record ComputeRoutesResponse =
  routes :: "Route list maybe"

datatype DirectionsMode = driving | walking | bicycling | transit

datatype RouteTravelMode = DRIVE | WALK | BICYCLE | TRANSIT

record ComputeRoutesRequest =
  origin :: string
  destination :: string
  travelMode :: RouteTravelMode
  fieldMask :: string

record LocalizedText =
  lt_text :: "string maybe"

record Place =
  place_id :: "string maybe"
  displayName :: "LocalizedText maybe"
  formattedAddress :: "string maybe"
  location :: "LatLng maybe"
  rating :: "number maybe"
  userRatingCount :: "number maybe"
  primaryType :: "string maybe"
  internationalPhoneNumber :: "string maybe"
  websiteUri :: "string maybe"

record SearchResponse =
  places :: "Place list maybe"

record SearchNearbyRequest =
  maxResultCount :: "number option"
  includedPrimaryTypes :: "string list option"
  circle_center :: LatLng
  circle_radius :: number

subsection \<open>durationToSeconds\<close>

text \<open>
  \<^verbatim>\<open>/^([0-9]+(?:\.[0-9]+)?)s$/.exec(duration)\<close>: the result is the first group, or
  \<open>None\<close> when the string does not match. The digits, the dot and the \<^verbatim>\<open>s\<close> are
  disjoint character classes, so the greedy match is the only one.
\<close>

definition duration_regex :: "string \<Rightarrow> string option" where
  "duration_regex d =
     (let ip = takeWhile is_digit d; r1 = dropWhile is_digit d in
      if ip = [] then None
      else if r1 = ''s'' then Some ip
      else if r1 \<noteq> [] \<and> hd r1 = CHR ''.'' then
        (let fp = takeWhile is_digit (tl r1); r2 = dropWhile is_digit (tl r1) in
         if fp \<noteq> [] \<and> r2 = ''s'' then Some (ip @ ''.'' @ fp) else None)
      else None)"

definition durationToSeconds :: "duration_value option \<Rightarrow> number option" where
  "durationToSeconds duration =
     (case duration of
        None \<Rightarrow> None
      | Some (DurationString d) \<Rightarrow>
          if d = [] then None
          else (case duration_regex d of
                  Some m1 \<Rightarrow> Some (Number_of_string m1)
                | None \<Rightarrow> None)
      | Some (DurationMessage d) \<Rightarrow>
          (let secondsRaw = nullish (SecondsNumber (Fin 0)) (seconds d);
               secs = (case secondsRaw of
                         SecondsString str \<Rightarrow> Number_of_string str
                       | SecondsNumber n \<Rightarrow> n);
               ns = nullish (Fin 0) (nanos d)
           in Some (num_add secs (div_1e9 ns))))"

subsection \<open>googleMaps.ts\<close>

text \<open>
  Each client function builds one request and awaits one call of the provider's library;
  the library call is a parameter, and a rejected call is \<open>Inl\<close>.
\<close>

definition TRAVEL_MODE_MAP :: "DirectionsMode \<Rightarrow> RouteTravelMode" where
  "TRAVEL_MODE_MAP m =
     (case m of driving \<Rightarrow> DRIVE | walking \<Rightarrow> WALK | bicycling \<Rightarrow> BICYCLE | transit \<Rightarrow> TRANSIT)"

definition directions_request :: "string \<Rightarrow> string \<Rightarrow> DirectionsMode \<Rightarrow> ComputeRoutesRequest" where
  "directions_request orig dest mode =
     \<lparr>origin = orig, destination = dest, travelMode = TRAVEL_MODE_MAP mode,
      fieldMask = ''routes.distanceMeters,routes.duration,routes.legs.startLocation,routes.legs.endLocation,routes.legs.distanceMeters,routes.legs.duration''\<rparr>"

definition directions ::
  "(ComputeRoutesRequest \<Rightarrow> 'e + ComputeRoutesResponse) \<Rightarrow>
   string \<Rightarrow> string \<Rightarrow> DirectionsMode option \<Rightarrow> 'e + ComputeRoutesResponse" where
  \<comment> \<open>the parameter default \<^verbatim>\<open>mode: DirectionsMode = 'driving'\<close> applies to \<^verbatim>\<open>undefined\<close>\<close>
  "directions computeRoutes orig dest mode =
     computeRoutes (directions_request orig dest (case mode of None \<Rightarrow> driving | Some m \<Rightarrow> m))"

definition startsWith :: "string \<Rightarrow> string \<Rightarrow> bool" where
  "startsWith s p = (take (length p) s = p)"

definition resource_name :: "string \<Rightarrow> string" where
  \<comment> \<open>\<^verbatim>\<open>placeId.startsWith('places/') ? placeId : `places/${placeId}`\<close>\<close>
  "resource_name placeId = (if startsWith placeId ''places/'' then placeId else ''places/'' @ placeId)"

definition getPlace :: "(string \<Rightarrow> 'e + Place) \<Rightarrow> string \<Rightarrow> 'e + Place" where
  \<comment> \<open>the library call receives \<^verbatim>\<open>{ name }\<close>\<close>
  "getPlace getPlaceCall placeId = getPlaceCall (resource_name placeId)"

definition placesSearchNearby ::
  "(SearchNearbyRequest \<Rightarrow> 'e + SearchResponse) \<Rightarrow>
   number \<times> number \<Rightarrow> number \<Rightarrow> string list option \<Rightarrow> number option \<Rightarrow> 'e + SearchResponse" where
  "placesSearchNearby searchNearby center radiusMeters types maxCount =
     searchNearby
       \<lparr>maxResultCount = maxCount, includedPrimaryTypes = types,
        circle_center = \<lparr>latitude = Just (fst center), longitude = Just (snd center)\<rparr>,
        circle_radius = radiusMeters\<rparr>"

definition placesSearchText :: "(string \<Rightarrow> 'e + SearchResponse) \<Rightarrow> string \<Rightarrow> 'e + SearchResponse" where
  \<comment> \<open>the library call receives \<^verbatim>\<open>{ textQuery }\<close>\<close>
  "placesSearchText searchText textQuery = searchText textQuery"

subsection \<open>The handlers' structured content\<close>

text \<open>
  A handler returns \<^verbatim>\<open>{content: [{type: 'text', text: JSON.stringify(structured, null, 2)}],
  structuredContent: structured}\<close>; the model is \<open>structured\<close>.
\<close>

definition lat_lng_json :: "LatLng \<Rightarrow> json" where
  \<comment> \<open>\<^verbatim>\<open>{ lat: p.location.latitude!, lng: p.location.longitude! }\<close>\<close>
  "lat_lng_json l = JObject [(''lat'', num_json (latitude l)), (''lng'', num_json (longitude l))]"

definition place_location :: "Place \<Rightarrow> json" where
  \<comment> \<open>\<^verbatim>\<open>p.location ? {...} : undefined\<close>\<close>
  "place_location p = (case location p of Just l \<Rightarrow> lat_lng_json l | _ \<Rightarrow> JUndefined)"

definition place_result :: "Place \<Rightarrow> json" where
  "place_result p =
     JObject
       [(''id'', str_json (place_id p)),
        (''display_name'', str_json (chain (displayName p) lt_text)),
        (''formatted_address'', str_json (formattedAddress p)),
        (''location'', place_location p),
        (''rating'', num_json (rating p)),
        (''user_rating_count'', num_json (userRatingCount p)),
        (''primary_type'', str_json (primaryType p))]"

definition search_structured :: "SearchResponse \<Rightarrow> json" where
  \<comment> \<open>\<^verbatim>\<open>results.length ? 'OK' : 'ZERO_RESULTS'\<close>\<close>
  "search_structured resp =
     (let results = map place_result (nullish [] (places resp)) in
      JObject
        [(''results'', JArray results),
         (''status'', JString (if length results \<noteq> 0 then ''OK'' else ''ZERO_RESULTS''))])"

definition places_search_text ::
  "(string \<Rightarrow> 'e + SearchResponse) \<Rightarrow> string \<Rightarrow> 'e + json" where
  "places_search_text searchText query = map_sum id search_structured (placesSearchText searchText query)"

definition places_search_nearby ::
  "(SearchNearbyRequest \<Rightarrow> 'e + SearchResponse) \<Rightarrow>
   number \<Rightarrow> number \<Rightarrow> number \<Rightarrow> string list option \<Rightarrow> number option \<Rightarrow> 'e + json" where
  "places_search_nearby searchNearby center_lat center_lng radius_meters
      included_primary_types max_result_count =
     map_sum id search_structured
       (placesSearchNearby searchNearby (center_lat, center_lng) radius_meters
          included_primary_types max_result_count)"

definition places_get_place :: "(string \<Rightarrow> 'e + Place) \<Rightarrow> string \<Rightarrow> 'e + json" where
  "places_get_place getPlaceCall pid =
     map_sum id
       (\<lambda>p. JObject
          [(''place'',
            JObject
              [(''id'', str_json (place_id p)),
               (''display_name'', str_json (chain (displayName p) lt_text)),
               (''formatted_address'', str_json (formattedAddress p)),
               (''location'', place_location p),
               (''rating'', num_json (rating p)),
               (''user_rating_count'', num_json (userRatingCount p)),
               (''primary_type'', str_json (primaryType p)),
               (''phone'', str_json (internationalPhoneNumber p)),
               (''website_uri'', str_json (websiteUri p))])])
       (getPlace getPlaceCall pid)"

definition leg_location :: "Location maybe \<Rightarrow> json" where
  \<comment> \<open>\<^verbatim>\<open>{ lat: leg.startLocation?.latLng?.latitude, lng: leg.startLocation?.latLng?.longitude }\<close>\<close>
  "leg_location l =
     JObject
       [(''lat'', num_json (chain (chain l latLng) latitude)),
        (''lng'', num_json (chain (chain l latLng) longitude))]"

definition leg_json :: "RouteLeg \<Rightarrow> json" where
  "leg_json leg =
     JObject
       [(''start_location'', leg_location (startLocation leg)),
        (''end_location'', leg_location (endLocation leg)),
        (''distance_meters'', num_json (leg_distanceMeters leg)),
        (''duration_seconds'', opt_num_json (durationToSeconds (or_undefined (leg_duration leg))))]"

definition route_json :: "Route \<Rightarrow> json" where
  "route_json route =
     JObject
       [(''distance_meters'', num_json (route_distanceMeters route)),
        (''duration_seconds'', opt_num_json (durationToSeconds (or_undefined (route_duration route)))),
        (''legs'', JArray (map leg_json (nullish [] (legs route))))]"

definition directions_structured :: "ComputeRoutesResponse \<Rightarrow> json" where
  \<comment> \<open>\<^verbatim>\<open>data?.routes && data.routes.length > 0 ? 'OK' : 'ZERO_RESULTS'\<close>\<close>
  "directions_structured data =
     JObject
       [(''routes'', JArray (map route_json (nullish [] (routes data)))),
        (''status'',
         JString (case routes data of
                    Just rs \<Rightarrow> if length rs > 0 then ''OK'' else ''ZERO_RESULTS''
                  | _ \<Rightarrow> ''ZERO_RESULTS''))]"

definition directions_tool ::
  "(ComputeRoutesRequest \<Rightarrow> 'e + ComputeRoutesResponse) \<Rightarrow>
   string \<Rightarrow> string \<Rightarrow> DirectionsMode option \<Rightarrow> 'e + json" where
  \<comment> \<open>\<^verbatim>\<open>directions(origin, destination, mode ?? 'driving')\<close>\<close>
  "directions_tool computeRoutes orig dest mode =
     map_sum id directions_structured
       (directions computeRoutes orig dest
          (Some (case mode of None \<Rightarrow> driving | Some m \<Rightarrow> m)))"

subsection \<open>Output schemas\<close>

text \<open>
  The zod schemas the tools declare, and zod's parse as a predicate: \<^verbatim>\<open>z.string()\<close>
  takes a string, \<^verbatim>\<open>z.number()\<close> a number other than \<^verbatim>\<open>NaN\<close>, \<^verbatim>\<open>.optional()\<close>
  also \<^verbatim>\<open>undefined\<close> (not \<^verbatim>\<open>null\<close>), \<^verbatim>\<open>z.array\<close> an array of parsed elements, and
  \<^verbatim>\<open>z.object\<close> an object whose declared keys parse (other keys are ignored).
\<close>

datatype zod =
    ZString
  | ZNumber
  | ZOptional zod
  | ZArray zod
  | ZObject "(string \<times> zod) list"

fun parses :: "zod \<Rightarrow> json \<Rightarrow> bool"
  and parses_shape :: "(string \<times> zod) list \<Rightarrow> json \<Rightarrow> bool" where
  "parses ZString v = (case v of JString s \<Rightarrow> True | _ \<Rightarrow> False)"
| "parses ZNumber v = (case v of JNumber n \<Rightarrow> n \<noteq> NaN | _ \<Rightarrow> False)"
| "parses (ZOptional z) v = (v = JUndefined \<or> parses z v)"
| "parses (ZArray z) v = (case v of JArray xs \<Rightarrow> list_all (parses z) xs | _ \<Rightarrow> False)"
| "parses (ZObject shape) v = (case v of JObject kvs \<Rightarrow> parses_shape shape v | _ \<Rightarrow> False)"
| "parses_shape [] v = True"
| "parses_shape ((k, z) # shape) v = (parses z (field k v) \<and> parses_shape shape v)"

definition lat_lng_schema :: zod where
  "lat_lng_schema = ZObject [(''lat'', ZNumber), (''lng'', ZNumber)]"

definition directions_outputSchema :: zod where
  "directions_outputSchema =
     ZObject
       [(''routes'',
         ZArray (ZObject
           [(''distance_meters'', ZOptional ZNumber),
            (''duration_seconds'', ZOptional ZNumber),
            (''legs'',
             ZArray (ZObject
               [(''start_location'', lat_lng_schema),
                (''end_location'', lat_lng_schema),
                (''distance_meters'', ZOptional ZNumber),
                (''duration_seconds'', ZOptional ZNumber)]))])),
        (''status'', ZString)]"

definition search_outputSchema :: zod where
  \<comment> \<open>declared twice, by \<^verbatim>\<open>places_search_text\<close> and by \<^verbatim>\<open>places_search_nearby\<close>\<close>
  "search_outputSchema =
     ZObject
       [(''results'',
         ZArray (ZObject
           [(''id'', ZOptional ZString),
            (''display_name'', ZOptional ZString),
            (''formatted_address'', ZOptional ZString),
            (''location'', ZOptional lat_lng_schema),
            (''rating'', ZOptional ZNumber),
            (''user_rating_count'', ZOptional ZNumber),
            (''primary_type'', ZOptional ZString)])),
        (''status'', ZString)]"

section \<open>Configuration (config.ts)\<close>









section \<open>Properties of the router\<close>

lemma resolve_absent [simp]: "resolve reg None = None" "resolve reg (Some []) = None"
  by (simp_all add: resolve_def)

lemma resolve_unknown:
  "\<not> live reg sid \<Longrightarrow> sid \<notin> set Object_prototype_keys \<Longrightarrow> resolve reg (Some sid) = None"
  by (simp add: resolve_def property_def live_def)

lemma resolve_inherited:
  "\<not> live reg sid \<Longrightarrow> sid \<in> set Object_prototype_keys \<Longrightarrow>
   resolve reg (Some sid) = Some (Inherited sid)"
  by (auto simp: resolve_def property_def live_def Object_prototype_keys_def)

lemma replied_leaves_registry [simp]: "after sdk (Replied n b) reg = reg"
  by (simp add: after_def)

lemma delete_absent_key: "\<not> live reg sid \<Longrightarrow> reg(sid := None) = reg"
  by (auto simp: live_def)

text \<open>
  C1 (as stated). A POST whose session id is not live is claimed to fail with 400 and to
  create no session whatever the payload. With an initialization payload the handler
  instead constructs and connects a new transport, and once the SDK initialises it a new
  session is registered.
\<close>

theorem post_stale_id_initialize_counterexample:
  "\<not> live Map.empty ''gone'' \<and>
   post_mcp (\<lambda>b. b) 1 Map.empty (Some ''gone'') True
     = Connected \<lparr>tid = 1, sessionId = None\<rparr> \<and>
   live (after (\<lambda>t. [SessionInitialized ''s1''])
           (post_mcp (\<lambda>b. b) 1 Map.empty (Some ''gone'') True) Map.empty) ''s1''"
  by (simp add: live_def post_mcp_def resolve_def property_def Object_prototype_keys_def
        after_def onsessioninitialized_def)

text \<open>
  C1 (amended). For every POST request that presents a session id which is not live (and
  is not the name of an \<^verbatim>\<open>Object.prototype\<close> member): when the body is not an
  initialization message the router replies 400 with the JSON-RPC error
  \<^verbatim>\<open>{code: -32000, message: "Bad Request: No valid session ID provided"}\<close> and the
  registry is unchanged; when the body is an initialization message the router
  constructs and connects a new transport, as it does for a request without session id.
\<close>

theorem post_unknown_session_id:
  assumes "\<not> live reg sid" and "sid \<notin> set Object_prototype_keys"
  shows "(\<not> isInitializeRequest body \<longrightarrow>
            post_mcp isInitializeRequest fresh reg (Some sid) body
              = Replied 400 (JsonRpcError (- 32000) ''Bad Request: No valid session ID provided'')
          \<and> after sdk (post_mcp isInitializeRequest fresh reg (Some sid) body) reg = reg)
       \<and> (isInitializeRequest body \<longrightarrow>
            post_mcp isInitializeRequest fresh reg (Some sid) body
              = Connected \<lparr>tid = fresh, sessionId = None\<rparr>
          \<and> post_mcp isInitializeRequest fresh reg (Some sid) body
              = post_mcp isInitializeRequest fresh reg None body)"
  using resolve_unknown [OF assms] by (simp add: post_mcp_def)

theorem post_unknown_session_id_witness:
  "post_mcp (\<lambda>b. b) 1 Map.empty (Some ''gone'') False
     = Replied 400 (JsonRpcError (- 32000) ''Bad Request: No valid session ID provided'')
   \<and> after (\<lambda>t. [SessionInitialized ''s1''])
         (post_mcp (\<lambda>b. b) 1 Map.empty (Some ''gone'') False) Map.empty = Map.empty
   \<and> post_mcp (\<lambda>b. b) 1 Map.empty (Some ''gone'') True
     = Connected \<lparr>tid = 1, sessionId = None\<rparr>"
proof -
  have a: "\<not> live Map.empty ''gone''"
    by (simp add: live_def)
  have b: "''gone'' \<notin> set Object_prototype_keys"
    by (simp add: Object_prototype_keys_def)
  show ?thesis
    using post_unknown_session_id [OF a b, of "\<lambda>b. b" False 1 "\<lambda>t. [SessionInitialized ''s1'']"]
      post_unknown_session_id [OF a b, of "\<lambda>b. b" True 1 "\<lambda>t. []"]
    by simp
qed

text \<open>
  C6. Session destruction is \<open>onclose\<close>. Closing a transport whose session id is
  already absent from the registry leaves the registry as it is, and a second close right
  after a first changes nothing. \<open>onclose\<close> is total: there is no error it could raise.
\<close>

theorem onclose_idempotent:
  assumes "sessionId t = Some sid"
  shows "(\<not> live reg sid \<longrightarrow> onclose t reg = reg)
       \<and> onclose t (onclose t reg) = onclose t reg"
  using assms by (auto simp: onclose_def live_def)

theorem onclose_idempotent_witness:
  "onclose \<lparr>tid = 1, sessionId = Some ''s1''\<rparr> Map.empty = Map.empty
   \<and> onclose \<lparr>tid = 1, sessionId = Some ''s1''\<rparr>
       (onclose \<lparr>tid = 1, sessionId = Some ''s1''\<rparr>
          [''s1'' \<mapsto> \<lparr>tid = 1, sessionId = Some ''s1''\<rparr>])
     = onclose \<lparr>tid = 1, sessionId = Some ''s1''\<rparr>
         [''s1'' \<mapsto> \<lparr>tid = 1, sessionId = Some ''s1''\<rparr>]
   \<and> \<not> live (onclose \<lparr>tid = 1, sessionId = Some ''s1''\<rparr>
          [''s1'' \<mapsto> \<lparr>tid = 1, sessionId = Some ''s1''\<rparr>]) ''s1''"
proof -
  have a: "sessionId \<lparr>tid = 1, sessionId = Some ''s1''\<rparr> = Some ''s1''"
    by simp
  have b: "\<not> live Map.empty ''s1''"
    by (simp add: live_def)
  have c: "\<not> live (onclose \<lparr>tid = 1, sessionId = Some ''s1''\<rparr>
          [''s1'' \<mapsto> \<lparr>tid = 1, sessionId = Some ''s1''\<rparr>]) ''s1''"
    by (simp add: live_def onclose_def)
  show ?thesis
    using onclose_idempotent [OF a, of Map.empty] b c
      onclose_idempotent [OF a, of "[''s1'' \<mapsto> \<lparr>tid = 1, sessionId = Some ''s1''\<rparr>]"]
    by simp
qed

text \<open>
  C7. A POST that carries no session id (no header, or an empty one, which JavaScript
  treats as absent) and whose body is not an initialization message is answered 400 with
  the JSON-RPC error body, and the registry is unchanged whatever the SDK would do.
\<close>

theorem post_without_session_id:
  assumes "hdr = None \<or> hdr = Some []" and "\<not> isInitializeRequest body"
  shows "post_mcp isInitializeRequest fresh reg hdr body
           = Replied 400 (JsonRpcError (- 32000) ''Bad Request: No valid session ID provided'')
       \<and> after sdk (post_mcp isInitializeRequest fresh reg hdr body) reg = reg"
  using assms by (auto simp: post_mcp_def)

theorem post_without_session_id_witness:
  "post_mcp (\<lambda>b. b) 1 [''s1'' \<mapsto> \<lparr>tid = 0, sessionId = Some ''s1''\<rparr>] None False
     = Replied 400 (JsonRpcError (- 32000) ''Bad Request: No valid session ID provided'')
   \<and> after (\<lambda>t. [Closed])
         (post_mcp (\<lambda>b. b) 1 [''s1'' \<mapsto> \<lparr>tid = 0, sessionId = Some ''s1''\<rparr>] None False)
         [''s1'' \<mapsto> \<lparr>tid = 0, sessionId = Some ''s1''\<rparr>]
     = [''s1'' \<mapsto> \<lparr>tid = 0, sessionId = Some ''s1''\<rparr>]"
  using post_without_session_id
    [of None "\<lambda>b. b" False 1 "[''s1'' \<mapsto> \<lparr>tid = 0, sessionId = Some ''s1''\<rparr>]" "\<lambda>t. [Closed]"]
  by simp

text \<open>
  GET and DELETE share one guard. A request whose session id is absent, or names neither
  a live session nor an \<^verbatim>\<open>Object.prototype\<close> member, is answered 400 with the
  plain text \<^verbatim>\<open>Invalid or missing session ID\<close>, and the registry is unchanged.
\<close>

lemma get_delete_unknown_session_id:
  assumes "hdr = None \<or> hdr = Some [] \<or>
           (\<exists>sid. hdr = Some sid \<and> \<not> live reg sid \<and> sid \<notin> set Object_prototype_keys)"
  shows "get_mcp reg hdr = Replied 400 (PlainText ''Invalid or missing session ID'')
       \<and> delete_mcp reg hdr = Replied 400 (PlainText ''Invalid or missing session ID'')
       \<and> after sdk (get_mcp reg hdr) reg = reg
       \<and> after sdk (delete_mcp reg hdr) reg = reg"
  using assms by (auto simp: get_mcp_def delete_mcp_def resolve_unknown)

text \<open>
  C8 (the code at the failing input). The header \<^verbatim>\<open>mcp-session-id: constructor\<close>
  references no live session, yet \<^verbatim>\<open>transports['constructor']\<close> is the inherited
  \<^verbatim>\<open>Object\<close> function, which is truthy: neither handler replies 400; each goes on to
  call \<^verbatim>\<open>handleRequest\<close> on it, which throws a TypeError after the reply was hijacked.
\<close>

theorem get_delete_inherited_key:
  "\<not> live Map.empty ''constructor''
   \<and> get_mcp Map.empty (Some ''constructor'') = TypeError ''constructor''
   \<and> delete_mcp Map.empty (Some ''constructor'') = TypeError ''constructor''"
  by (simp add: live_def get_mcp_def delete_mcp_def resolve_def property_def hand_off_def
        Object_prototype_keys_def)

section \<open>Properties of the tool handlers\<close>

text \<open>
  C3. For every provider response, the structured content of \<^verbatim>\<open>places_search_text\<close>
  and of \<^verbatim>\<open>places_search_nearby\<close> carries the mapped places of that response as its
  results, with status \<^verbatim>\<open>ZERO_RESULTS\<close> exactly when the mapped array is empty and
  status \<^verbatim>\<open>OK\<close> in every other case.
\<close>

theorem search_status_zero_results_iff_empty:
  assumes "searchText query = Inr resp"
    and "searchNearby
           \<lparr>maxResultCount = max_count, includedPrimaryTypes = types,
            circle_center = \<lparr>latitude = Just center_lat, longitude = Just center_lng\<rparr>,
            circle_radius = radius_meters\<rparr> = Inr resp'"
  shows "places_search_text searchText query
           = Inr (JObject
               [(''results'', JArray (map place_result (nullish [] (places resp)))),
                (''status'',
                 JString (if map place_result (nullish [] (places resp)) = []
                          then ''ZERO_RESULTS'' else ''OK''))])
       \<and> places_search_nearby searchNearby center_lat center_lng radius_meters types max_count
           = Inr (JObject
               [(''results'', JArray (map place_result (nullish [] (places resp')))),
                (''status'',
                 JString (if map place_result (nullish [] (places resp')) = []
                          then ''ZERO_RESULTS'' else ''OK''))])"
  using assms
  by (simp add: places_search_text_def placesSearchText_def places_search_nearby_def
        placesSearchNearby_def search_structured_def Let_def)

theorem search_status_zero_results_iff_empty_witness:
  "places_search_text
     (\<lambda>q. Inr \<lparr>places = Just [\<lparr>place_id = Just ''p1'', displayName = Undefined,
                                formattedAddress = Undefined, location = Undefined,
                                rating = Undefined, userRatingCount = Undefined,
                                primaryType = Undefined, internationalPhoneNumber = Undefined,
                                websiteUri = Undefined\<rparr>]\<rparr> :: unit + SearchResponse)
     ''cafe''
   = Inr (JObject
       [(''results'', JArray [JObject
          [(''id'', JString ''p1''), (''display_name'', JUndefined),
           (''formatted_address'', JUndefined), (''location'', JUndefined),
           (''rating'', JUndefined), (''user_rating_count'', JUndefined),
           (''primary_type'', JUndefined)]]),
        (''status'', JString ''OK'')])
   \<and> places_search_nearby (\<lambda>r. Inr \<lparr>places = Just []\<rparr> :: unit + SearchResponse)
       (Fin 48) (Fin 2) (Fin 500) None None
   = Inr (JObject [(''results'', JArray []), (''status'', JString ''ZERO_RESULTS'')])"
  using search_status_zero_results_iff_empty
    [of "\<lambda>q. Inr \<lparr>places = Just [\<lparr>place_id = Just ''p1'', displayName = Undefined,
                                formattedAddress = Undefined, location = Undefined,
                                rating = Undefined, userRatingCount = Undefined,
                                primaryType = Undefined, internationalPhoneNumber = Undefined,
                                websiteUri = Undefined\<rparr>]\<rparr> :: unit + SearchResponse"
        "''cafe''"
        "\<lparr>places = Just [\<lparr>place_id = Just ''p1'', displayName = Undefined,
                                formattedAddress = Undefined, location = Undefined,
                                rating = Undefined, userRatingCount = Undefined,
                                primaryType = Undefined, internationalPhoneNumber = Undefined,
                                websiteUri = Undefined\<rparr>]\<rparr>"
        "\<lambda>r. Inr \<lparr>places = Just []\<rparr> :: unit + SearchResponse"
        None None "Fin 48" "Fin 2" "Fin 500" "\<lparr>places = Just []\<rparr>"]
  by (simp add: nullish_def place_result_def str_json_def num_json_def chain_def
        place_location_def)

text \<open>
  C5. When the provider returns no routes (the list is empty, \<^verbatim>\<open>null\<close> or missing) the
  directions handler returns \<^verbatim>\<open>{routes: [], status: "ZERO_RESULTS"}\<close>; and when
  \<^verbatim>\<open>mode\<close> is omitted, the request it issues is the one for \<^verbatim>\<open>driving\<close>, whose travel
  mode is \<^verbatim>\<open>DRIVE\<close>.
\<close>

theorem directions_zero_routes:
  assumes "computeRoutes (directions_request orig dest (case mode of None \<Rightarrow> driving | Some m \<Rightarrow> m))
             = Inr data"
    and "routes data = Just [] \<or> routes data = Null \<or> routes data = Undefined"
  shows "directions_tool computeRoutes orig dest mode
           = Inr (JObject [(''routes'', JArray []), (''status'', JString ''ZERO_RESULTS'')])
       \<and> directions_tool computeRoutes orig dest None
           = map_sum id directions_structured (computeRoutes (directions_request orig dest driving))
       \<and> travelMode (directions_request orig dest driving) = DRIVE"
  using assms
  by (auto simp: directions_tool_def directions_def directions_structured_def nullish_def
        directions_request_def TRAVEL_MODE_MAP_def)

theorem directions_zero_routes_witness:
  "directions_tool (\<lambda>r. Inr \<lparr>routes = Just []\<rparr> :: unit + ComputeRoutesResponse) ''A'' ''B'' (Some driving)
     = Inr (JObject [(''routes'', JArray []), (''status'', JString ''ZERO_RESULTS'')])
   \<and> directions_tool (\<lambda>r. if travelMode r = DRIVE then Inr \<lparr>routes = Undefined\<rparr> else Inl ()) ''A'' ''B'' None
     = Inr (JObject [(''routes'', JArray []), (''status'', JString ''ZERO_RESULTS'')])"
proof -
  have a: "routes \<lparr>routes = Just []\<rparr> = Just [] \<or> routes \<lparr>routes = Just []\<rparr> = Null
         \<or> routes \<lparr>routes = Just []\<rparr> = Undefined"
    by simp
  have b: "routes \<lparr>routes = Undefined\<rparr> = Just [] \<or> routes \<lparr>routes = Undefined\<rparr> = Null
         \<or> routes \<lparr>routes = Undefined\<rparr> = Undefined"
    by simp
  show ?thesis
    using directions_zero_routes
        [of "\<lambda>r. Inr \<lparr>routes = Just []\<rparr> :: unit + ComputeRoutesResponse" "''A''" "''B''"
            "Some driving" "\<lparr>routes = Just []\<rparr>"]
      directions_zero_routes
        [of "\<lambda>r. if travelMode r = DRIVE then Inr \<lparr>routes = Undefined\<rparr> else Inl ()" "''A''" "''B''"
            None "\<lparr>routes = Undefined\<rparr>"]
      a b
    by (simp add: directions_request_def TRAVEL_MODE_MAP_def)
qed

text \<open>
  C10. \<^verbatim>\<open>getPlace\<close> asks the provider for the resource name of its argument: the
  argument itself when it starts with \<^verbatim>\<open>places/\<close>, the argument prefixed with
  \<^verbatim>\<open>places/\<close> otherwise. The name always starts with \<^verbatim>\<open>places/\<close>, naming is
  idempotent, and the bare id and the full resource name reach the provider as the same
  request, through \<^verbatim>\<open>getPlace\<close> and through the \<^verbatim>\<open>places_get_place\<close> handler.
\<close>

theorem resource_name_idempotent:
  "resource_name pid = (if startsWith pid ''places/'' then pid else ''places/'' @ pid)
   \<and> startsWith (resource_name pid) ''places/''
   \<and> resource_name (resource_name pid) = resource_name pid
   \<and> getPlace getPlaceCall pid = getPlaceCall (resource_name pid)
   \<and> getPlace getPlaceCall (resource_name pid) = getPlace getPlaceCall pid
   \<and> places_get_place getPlaceCall (resource_name pid) = places_get_place getPlaceCall pid"
  by (simp add: resource_name_def startsWith_def getPlace_def places_get_place_def)

theorem resource_name_idempotent_witness:
  "resource_name ''ChIJ'' = ''places/ChIJ''
   \<and> resource_name ''places/ChIJ'' = ''places/ChIJ''
   \<and> resource_name (resource_name ''ChIJ'') = resource_name ''ChIJ''"
  using resource_name_idempotent [of "''ChIJ''" "\<lambda>n. Inl ()"]
    resource_name_idempotent [of "''places/ChIJ''" "\<lambda>n. Inl ()"]
  by (simp add: startsWith_def)

text \<open>
  The schema of a leg's location holds exactly when the provider supplied the location
  with both coordinates.
\<close>

lemma leg_location_parses_iff:
  "parses lat_lng_schema (leg_location l) \<longleftrightarrow>
     (\<exists>loc ll a b. l = Just loc \<and> latLng loc = Just ll
        \<and> latitude ll = Just a \<and> longitude ll = Just b \<and> a \<noteq> NaN \<and> b \<noteq> NaN)"
  by (auto simp: lat_lng_schema_def leg_location_def field_def chain_def num_json_def
        split: maybe.splits)

text \<open>
  C4 (the code at the failing input). The provider answers with one route whose single
  leg carries no start or end location. The handler still emits \<^verbatim>\<open>start_location\<close> and
  \<^verbatim>\<open>end_location\<close> objects, with \<^verbatim>\<open>lat\<close> and \<^verbatim>\<open>lng\<close> \<^verbatim>\<open>undefined\<close>, and the
  declared output schema, which requires numbers there, rejects the output.
\<close>

theorem directions_leg_without_location_violates_schema:
  "directions_tool
     (\<lambda>r. Inr \<lparr>routes = Just [\<lparr>route_distanceMeters = Just (Fin 1200),
                               route_duration = Just (DurationString ''90s''),
                               legs = Just [\<lparr>startLocation = Undefined, endLocation = Undefined,
                                            leg_distanceMeters = Just (Fin 1200),
                                            leg_duration = Just (DurationString ''90s'')\<rparr>]\<rparr>]\<rparr>
           :: unit + ComputeRoutesResponse)
     ''A'' ''B'' None
   = Inr (JObject
       [(''routes'', JArray [JObject
          [(''distance_meters'', JNumber (Fin 1200)),
           (''duration_seconds'', JNumber (Fin 90)),
           (''legs'', JArray [JObject
              [(''start_location'', JObject [(''lat'', JUndefined), (''lng'', JUndefined)]),
               (''end_location'', JObject [(''lat'', JUndefined), (''lng'', JUndefined)]),
               (''distance_meters'', JNumber (Fin 1200)),
               (''duration_seconds'', JNumber (Fin 90))]])]]),
        (''status'', JString ''OK'')])
   \<and> \<not> parses directions_outputSchema
       (JObject
       [(''routes'', JArray [JObject
          [(''distance_meters'', JNumber (Fin 1200)),
           (''duration_seconds'', JNumber (Fin 90)),
           (''legs'', JArray [JObject
              [(''start_location'', JObject [(''lat'', JUndefined), (''lng'', JUndefined)]),
               (''end_location'', JObject [(''lat'', JUndefined), (''lng'', JUndefined)]),
               (''distance_meters'', JNumber (Fin 1200)),
               (''duration_seconds'', JNumber (Fin 90))]])]]),
        (''status'', JString ''OK'')])"
proof -
  have d: "durationToSeconds (Some (DurationString ''90s'')) = Some (Fin 90)"
    by code_simp
  show ?thesis
    by (simp add: directions_tool_def directions_def directions_structured_def nullish_def
          route_json_def leg_json_def leg_location_def chain_def num_json_def opt_num_json_def
          or_undefined_def d directions_outputSchema_def lat_lng_schema_def field_def)
qed

section \<open>Properties of durationToSeconds\<close>

lemma digit_not_space: "is_digit c \<Longrightarrow> \<not> is_space c"
  by (auto simp: is_digit_def is_space_def)

lemma trim_id: "s \<noteq> [] \<Longrightarrow> \<not> is_space (hd s) \<Longrightarrow> \<not> is_space (last s) \<Longrightarrow> trim s = s"
proof -
  assume a: "s \<noteq> []" "\<not> is_space (hd s)" "\<not> is_space (last s)"
  then have 1: "dropWhile is_space s = s" by (cases s) auto
  from a have "rev s \<noteq> []" "\<not> is_space (hd (rev s))" by (auto simp: hd_rev)
  then have 2: "dropWhile is_space (rev s) = rev s" by (cases "rev s") auto
  show ?thesis by (simp add: trim_def 1 2)
qed

lemma digits_take: "list_all is_digit ds \<Longrightarrow> \<not> is_digit c \<Longrightarrow> takeWhile is_digit (ds @ c # r) = ds"
  by (induction ds) auto

lemma digits_drop: "list_all is_digit ds \<Longrightarrow> \<not> is_digit c \<Longrightarrow> dropWhile is_digit (ds @ c # r) = c # r"
  by (induction ds) auto

lemma digits_take_all: "list_all is_digit ds \<Longrightarrow> takeWhile is_digit ds = ds"
  by (induction ds) auto

lemma digits_drop_all: "list_all is_digit ds \<Longrightarrow> dropWhile is_digit ds = []"
  by (induction ds) auto

lemma not_digit [simp]: "\<not> is_digit CHR ''.''" "\<not> is_digit CHR ''s''" "\<not> is_digit CHR ''I''"
  "\<not> is_digit CHR ''+''" "\<not> is_digit CHR ''-''"
  by (simp_all add: is_digit_def)

lemma regex_int:
  assumes "ip \<noteq> []" "list_all is_digit ip"
  shows "duration_regex (ip @ ''s'') = Some ip"
  using assms by (simp add: duration_regex_def digits_take digits_drop)

lemma regex_frac:
  assumes "ip \<noteq> []" "list_all is_digit ip" "fp \<noteq> []" "list_all is_digit fp"
  shows "duration_regex (ip @ ''.'' @ fp @ ''s'') = Some (ip @ ''.'' @ fp)"
  using assms by (simp add: duration_regex_def digits_take digits_drop Let_def)

text \<open>Only the two shapes match: the pattern accepts no sign and no exponent.\<close>

lemma regex_matches_only:
  assumes "duration_regex d = Some m"
  shows "\<exists>i. i \<noteq> [] \<and> list_all is_digit i \<and>
           (d = i @ ''s'' \<or> (\<exists>f. f \<noteq> [] \<and> list_all is_digit f \<and> d = i @ ''.'' @ f @ ''s''))"
proof -
  let ?i = "takeWhile is_digit d" and ?r = "dropWhile is_digit d"
  have d: "d = ?i @ ?r" by simp
  have di: "list_all is_digit ?i"
    by (auto simp: list_all_iff dest: set_takeWhileD)
  from assms have ne: "?i \<noteq> []"
    by (auto simp: duration_regex_def Let_def split: if_splits)
  show ?thesis
  proof (cases "?r = ''s''")
    case True
    with d have "d = ?i @ ''s''" by metis
    with ne di show ?thesis by blast
  next
    case False
    let ?f = "takeWhile is_digit (tl ?r)" and ?q = "dropWhile is_digit (tl ?r)"
    from assms False ne have r: "?r \<noteq> []" "hd ?r = CHR ''.''" "?f \<noteq> []" "?q = ''s''"
      by (auto simp: duration_regex_def Let_def split: if_splits)
    have df: "list_all is_digit ?f"
      by (auto simp: list_all_iff dest: set_takeWhileD)
    have "tl ?r = ?f @ ?q" by simp
    with r have "?r = ''.'' @ ?f @ ''s''"
      by (metis append_Cons append_Nil list.collapse)
    with d have "d = ?i @ ''.'' @ ?f @ ''s''" by metis
    with ne di r df show ?thesis by blast
  qed
qed

lemma numeral_not_radix:
  assumes "t \<noteq> []" "list_all (\<lambda>c. is_digit c \<or> c = CHR ''.'') t"
  shows "NonDecimalIntegerLiteral t = None"
proof (cases t)
  case Nil then show ?thesis using assms by simp
next
  case (Cons z r)
  show ?thesis
  proof (cases r)
    case Nil with Cons show ?thesis by (simp add: NonDecimalIntegerLiteral_def)
  next
    case (Cons c ds)
    with \<open>t = z # r\<close> assms have "is_digit c \<or> c = CHR ''.''" by simp
    then have "c \<notin> set ''xXoObB''" by (auto simp: is_digit_def)
    with Cons \<open>t = z # r\<close> show ?thesis by (simp add: NonDecimalIntegerLiteral_def)
  qed
qed

lemma Number_int:
  assumes "ip \<noteq> []" "list_all is_digit ip"
  shows "Number_of_string ip = to_double (of_nat (dec ip))"
proof -
  from assms have h: "is_digit (hd ip)" "is_digit (last ip)"
    by (cases ip; simp add: list_all_iff)+
  then have t: "trim ip = ip" using assms by (simp add: trim_id digit_not_space)
  have n: "NonDecimalIntegerLiteral ip = None"
    using assms by (intro numeral_not_radix) (auto simp: list_all_iff)
  from h have s: "hd ip \<noteq> CHR ''+''" "hd ip \<noteq> CHR ''-''" "ip \<noteq> ''Infinity''"
    by auto
  have z: "dec [] = 0" by (simp add: dec_def)
  have u: "StrUnsignedDecimalLiteral ip = to_double (of_nat (dec ip))"
    using assms s by (simp add: StrUnsignedDecimalLiteral_def digits_take_all digits_drop_all
        ExponentPart_def z)
  show ?thesis using assms by (simp add: Number_of_string_def t n s u)
qed

lemma Number_frac:
  assumes "ip \<noteq> []" "list_all is_digit ip" "fp \<noteq> []" "list_all is_digit fp"
  shows "Number_of_string (ip @ ''.'' @ fp)
           = to_double (of_nat (dec ip) + of_nat (dec fp) / 10 ^ length fp)"
proof -
  let ?t = "ip @ ''.'' @ fp"
  from assms have h: "is_digit (hd ?t)" "is_digit (last ?t)"
    by (cases ip; cases fp rule: rev_cases; simp add: list_all_iff)+
  then have t: "trim ?t = ?t" using assms by (simp add: trim_id digit_not_space)
  have n: "NonDecimalIntegerLiteral ?t = None"
    using assms by (intro numeral_not_radix) (auto simp: list_all_iff)
  from h have s: "hd ?t \<noteq> CHR ''+''" "hd ?t \<noteq> CHR ''-''" "?t \<noteq> ''Infinity''"
    by auto
  have u: "StrUnsignedDecimalLiteral ?t
             = to_double (of_nat (dec ip) + of_nat (dec fp) / 10 ^ length fp)"
    using assms s by (simp add: StrUnsignedDecimalLiteral_def digits_take digits_drop
        digits_take_all digits_drop_all ExponentPart_def Let_def)
  show ?thesis using assms s t n u by (simp add: Number_of_string_def Let_def)
qed

text \<open>The rounding at work: the nearest double, ties to even, overflow, underflow.\<close>

lemma to_double_examples:
  "to_double (7 / 2) = Fin (7 / 2)"
  "to_double 9007199254740993 = Fin 9007199254740992"
  "to_double (1 / 10) = Fin (3602879701896397 / 36028797018963968)"
  by code_simp+

lemma durationToSeconds_int:
  assumes "i \<noteq> []" "list_all is_digit i"
  shows "durationToSeconds (Some (DurationString (i @ ''s''))) = Some (to_double (of_nat (dec i)))"
  using assms by (simp add: durationToSeconds_def regex_int Number_int)

lemma durationToSeconds_rounds:
  "durationToSeconds (Some (DurationString ''9007199254740993s'')) = Some (Fin 9007199254740992)"
proof -
  have "dec ''9007199254740993'' = 9007199254740993"
    by (simp add: dec_def digit_val_def)
  with durationToSeconds_int [of "''9007199254740993''"] to_double_examples(2) show ?thesis
    by (simp add: is_digit_def)
qed

text \<open>
  C2 (as stated). Every string \<^verbatim>\<open><number>s\<close> is claimed to convert to that number.
  \<^verbatim>\<open>-3.5\<close> and \<^verbatim>\<open>1e3\<close> are numbers, to JavaScript's own \<^verbatim>\<open>Number\<close> as well, yet
  \<^verbatim>\<open>"-3.5s"\<close> and \<^verbatim>\<open>"1e3s"\<close> convert to an absent value: the pattern admits neither a
  sign nor an exponent.
\<close>

theorem durationToSeconds_signed_counterexample:
  "Number_of_string ''-3.5'' = Fin (- 7 / 2)
   \<and> durationToSeconds (Some (DurationString ''-3.5s'')) = None
   \<and> Number_of_string ''1e3'' = Fin 1000
   \<and> durationToSeconds (Some (DurationString ''1e3s'')) = None"
proof -
  have a: "Number_of_string ''-3.5'' = Fin (- 7 / 2)" by code_simp
  have b: "Number_of_string ''1e3'' = Fin 1000" by code_simp
  have c: "durationToSeconds (Some (DurationString ''-3.5s'')) = None"
    "durationToSeconds (Some (DurationString ''1e3s'')) = None"
    by (simp_all add: durationToSeconds_def duration_regex_def is_digit_def)
  from a b c show ?thesis by simp
qed

text \<open>
  C2 (amended). \<^verbatim>\<open>durationToSeconds\<close> gives 3.5 for \<^verbatim>\<open>"3.5s"\<close> and for
  \<^verbatim>\<open>{seconds: 3, nanos: 500000000}\<close>. An absent duration (\<^verbatim>\<open>undefined\<close>, or
  \<^verbatim>\<open>null\<close>, which the handler turns into \<^verbatim>\<open>undefined\<close>) gives an absent value, not 0.
  A string converts to a number exactly when it is an unsigned decimal numeral (digits,
  optionally a dot and more digits) followed by \<^verbatim>\<open>s\<close>, and then to the double nearest
  to that numeral; any other string gives an absent value. A \<^verbatim>\<open>{seconds, nanos}\<close> pair
  converts to \<^verbatim>\<open>seconds + nanos / 1e9\<close> in double arithmetic (each operation rounded),
  whether \<^verbatim>\<open>seconds\<close> is a number or a string of digits.
\<close>

theorem durationToSeconds_conversions:
  assumes "ip \<noteq> []" and "list_all is_digit ip" and "fp \<noteq> []" and "list_all is_digit fp"
  shows "durationToSeconds None = None
       \<and> durationToSeconds (or_undefined Null) = None
       \<and> durationToSeconds (or_undefined Undefined) = None
       \<and> durationToSeconds (Some (DurationString ''3.5s'')) = Some (Fin (7 / 2))
       \<and> durationToSeconds (Some (DurationMessage
            \<lparr>seconds = Just (SecondsNumber (Fin 3)), nanos = Just (Fin 500000000)\<rparr>))
           = Some (Fin (7 / 2))
       \<and> durationToSeconds (Some (DurationString (ip @ ''s'')))
           = Some (to_double (of_nat (dec ip)))
       \<and> durationToSeconds (Some (DurationString (ip @ ''.'' @ fp @ ''s'')))
           = Some (to_double (of_nat (dec ip) + of_nat (dec fp) / 10 ^ length fp))
       \<and> ((\<exists>x. durationToSeconds (Some (DurationString d)) = Some x) \<longleftrightarrow>
            (\<exists>i. i \<noteq> [] \<and> list_all is_digit i \<and>
               (d = i @ ''s'' \<or> (\<exists>f. f \<noteq> [] \<and> list_all is_digit f \<and> d = i @ ''.'' @ f @ ''s''))))
       \<and> durationToSeconds (Some (DurationMessage
            \<lparr>seconds = Just (SecondsNumber (Fin a)), nanos = Just (Fin b)\<rparr>))
           = Some (num_add (Fin a) (to_double (b / 1000000000)))
       \<and> (to_double (b / 1000000000) = Fin c \<longrightarrow>
            durationToSeconds (Some (DurationMessage
              \<lparr>seconds = Just (SecondsNumber (Fin a)), nanos = Just (Fin b)\<rparr>))
             = Some (to_double (a + c)))
       \<and> durationToSeconds (Some (DurationMessage
            \<lparr>seconds = Just (SecondsString ip), nanos = Just (Fin b)\<rparr>))
           = Some (num_add (to_double (of_nat (dec ip))) (to_double (b / 1000000000)))"
proof -
  have absent: "durationToSeconds None = None" "durationToSeconds (or_undefined Null) = None"
    "durationToSeconds (or_undefined Undefined) = None"
    by (simp_all add: durationToSeconds_def or_undefined_def)
  have s35: "durationToSeconds (Some (DurationString ''3.5s'')) = Some (Fin (7 / 2))"
    by code_simp
  have m35: "durationToSeconds (Some (DurationMessage
            \<lparr>seconds = Just (SecondsNumber (Fin 3)), nanos = Just (Fin 500000000)\<rparr>))
           = Some (Fin (7 / 2))"
    by code_simp
  have si: "durationToSeconds (Some (DurationString (i @ ''s''))) = Some (to_double (of_nat (dec i)))"
    if "i \<noteq> []" "list_all is_digit i" for i
    using that by (simp add: durationToSeconds_def regex_int Number_int)
  have sf: "durationToSeconds (Some (DurationString (i @ ''.'' @ f @ ''s'')))
           = Some (to_double (of_nat (dec i) + of_nat (dec f) / 10 ^ length f))"
    if "i \<noteq> []" "list_all is_digit i" "f \<noteq> []" "list_all is_digit f" for i f
    using that regex_frac [OF that] Number_frac [OF that]
    by (simp add: durationToSeconds_def)
  have only: "\<exists>i. i \<noteq> [] \<and> list_all is_digit i \<and>
               (d = i @ ''s'' \<or> (\<exists>f. f \<noteq> [] \<and> list_all is_digit f \<and> d = i @ ''.'' @ f @ ''s''))"
    if "durationToSeconds (Some (DurationString d)) = Some x" for x
  proof -
    from that obtain m where "duration_regex d = Some m"
      by (auto simp: durationToSeconds_def split: if_splits option.splits)
    then show ?thesis by (rule regex_matches_only)
  qed
  have iff: "(\<exists>x. durationToSeconds (Some (DurationString d)) = Some x) \<longleftrightarrow>
            (\<exists>i. i \<noteq> [] \<and> list_all is_digit i \<and>
               (d = i @ ''s'' \<or> (\<exists>f. f \<noteq> [] \<and> list_all is_digit f \<and> d = i @ ''.'' @ f @ ''s'')))"
    (is "?L \<longleftrightarrow> ?R")
  proof
    assume ?L
    then show ?R using only by blast
  next
    assume ?R
    then obtain i where i: "i \<noteq> []" "list_all is_digit i"
      and "d = i @ ''s'' \<or> (\<exists>f. f \<noteq> [] \<and> list_all is_digit f \<and> d = i @ ''.'' @ f @ ''s'')"
      by blast
    then consider "d = i @ ''s''"
      | f where "f \<noteq> []" "list_all is_digit f" "d = i @ ''.'' @ f @ ''s''"
      by blast
    then show ?L
    proof cases
      case 1
      with si [OF i] show ?thesis by blast
    next
      case 2
      with sf [OF i 2(1,2)] show ?thesis by blast
    qed
  qed
  have mn: "durationToSeconds (Some (DurationMessage
            \<lparr>seconds = Just (SecondsNumber (Fin a)), nanos = Just (Fin b)\<rparr>))
           = Some (num_add (Fin a) (to_double (b / 1000000000)))"
    by (simp add: durationToSeconds_def nullish_def div_1e9_def)
  have mc: "to_double (b / 1000000000) = Fin c \<longrightarrow>
            durationToSeconds (Some (DurationMessage
              \<lparr>seconds = Just (SecondsNumber (Fin a)), nanos = Just (Fin b)\<rparr>))
             = Some (to_double (a + c))"
    by (simp add: mn)
  have ms: "durationToSeconds (Some (DurationMessage
            \<lparr>seconds = Just (SecondsString ip), nanos = Just (Fin b)\<rparr>))
           = Some (num_add (to_double (of_nat (dec ip))) (to_double (b / 1000000000)))"
    using assms by (simp add: durationToSeconds_def nullish_def div_1e9_def Number_int)
  note int = si [OF assms(1,2)] and frac = sf [OF assms]
  show ?thesis
    by (intro conjI) (fact absent s35 m35 int frac iff mn mc ms)+
qed

theorem durationToSeconds_conversions_witness:
  "durationToSeconds (Some (DurationString ''12s'')) = Some (Fin 12)
   \<and> durationToSeconds (Some (DurationString ''12.25s'')) = Some (Fin (49 / 4))
   \<and> durationToSeconds (Some (DurationMessage
        \<lparr>seconds = Just (SecondsNumber (Fin 12)), nanos = Just (Fin 250000000)\<rparr>))
       = Some (Fin (49 / 4))
   \<and> durationToSeconds (Some (DurationMessage
        \<lparr>seconds = Just (SecondsString ''12''), nanos = Just (Fin 250000000)\<rparr>))
       = Some (Fin (49 / 4))
   \<and> (\<nexists>x. durationToSeconds (Some (DurationString ''-3.5s'')) = Some x)"
proof -
  have a: "''12'' \<noteq> []" "list_all is_digit ''12''" "''25'' \<noteq> []" "list_all is_digit ''25''"
    by (simp_all add: is_digit_def)
  have d: "dec ''12'' = 12" "dec ''25'' = 25"
    by (simp_all add: dec_def digit_val_def)
  have r: "to_double 12 = Fin 12" "to_double (49 / 4) = Fin (49 / 4)"
    "to_double (250000000 / 1000000000) = Fin (1 / 4)"
    by code_simp+
  have n: "\<nexists>x. durationToSeconds (Some (DurationString ''-3.5s'')) = Some x"
    by (simp add: durationToSeconds_def duration_regex_def is_digit_def)
  have q: "(12::rat) + 25 / 10 ^ length ''25'' = 49 / 4" "(12::rat) + 1 / 4 = 49 / 4"
    by simp_all
  show ?thesis
    using durationToSeconds_conversions [OF a, of "''12s''" 12 250000000 "1 / 4"] d r n q
    by simp
qed

text \<open>
  Further strings outside the pattern: a missing integer or fraction part, a missing
  unit, the empty string. An empty message is zero seconds.
\<close>

lemma durationToSeconds_outside_pattern:
  "durationToSeconds (Some (DurationString ''.5s'')) = None"
  "durationToSeconds (Some (DurationString ''3.s'')) = None"
  "durationToSeconds (Some (DurationString ''3.5'')) = None"
  "durationToSeconds (Some (DurationString [])) = None"
  "durationToSeconds (Some (DurationMessage \<lparr>seconds = Undefined, nanos = Null\<rparr>)) = Some (Fin 0)"
  by (simp_all add: durationToSeconds_def duration_regex_def is_digit_def nullish_def div_1e9_def
        to_double_def)

section \<open>Properties of the configuration\<close>




end
